theory Spec2Isabelle
  imports Complex_Main
begin

section \<open>Python values, exceptions and attribute lookup\<close>

text \<open>
  The configuration of the agent is a Python object whose attributes are read by name
  (\<^verbatim>\<open>self.cfg.eval_freq\<close>). An object is modelled by the map from its attribute names to
  their values, a keyword dictionary by an association list. Reading a missing attribute
  raises \<^verbatim>\<open>AttributeError\<close>. Floating-point values are carried as reals and handed to
  the collaborators untouched; where the source does integer arithmetic on an option
  (\<^verbatim>\<open>%\<close>, \<^verbatim>\<open><\<close>, \<^verbatim>\<open>>=\<close> against \<^verbatim>\<open>self.step\<close>) a \<^verbatim>\<open>None\<close> raises \<^verbatim>\<open>TypeError\<close> as in
  Python, and a float there ends the run of the model with \<open>FloatNotModelled\<close>: Python
  would go on in floating point, which this development does not embed.
\<close>

datatype pyval = PyNone | PyBool bool | PyInt int | PyFloat real

datatype error =
    TypeError
  | AttributeError string
  | ZeroDivisionError
  | ValueError
  | IndexError
  | UnboundLocalError string
  | FloatNotModelled

type_synonym attrs = "string \<rightharpoonup> pyval"

definition getattr :: "attrs \<Rightarrow> string \<Rightarrow> error + pyval" where
  "getattr obj name = (case obj name of None \<Rightarrow> Inl (AttributeError name) | Some v \<Rightarrow> Inr v)"

fun as_int :: "pyval \<Rightarrow> error + int" where
  "as_int (PyInt i) = Inr i"
| "as_int (PyBool b) = Inr (if b then 1 else 0)"
| "as_int PyNone = Inl TypeError"
| "as_int (PyFloat r) = Inl FloatNotModelled"

definition int_attr :: "attrs \<Rightarrow> string \<Rightarrow> error + int" where
  "int_attr obj name = (case getattr obj name of Inl e \<Rightarrow> Inl e | Inr v \<Rightarrow> as_int v)"

fun truthy :: "pyval \<Rightarrow> bool" where
  "truthy PyNone = False"
| "truthy (PyBool b) = b"
| "truthy (PyInt i) = (i \<noteq> 0)"
| "truthy (PyFloat r) = (r \<noteq> 0)"

text \<open>\<^verbatim>\<open>np.zeros(n)\<close>: the length of the array, or the exception numpy raises.\<close>

fun np_zeros_len :: "pyval \<Rightarrow> error + nat" where
  "np_zeros_len (PyInt i) = (if i < 0 then Inl ValueError else Inr (nat i))"
| "np_zeros_len (PyBool b) = Inr (if b then 1 else 0)"
| "np_zeros_len PyNone = Inl TypeError"
| "np_zeros_len (PyFloat r) = Inl TypeError"

text \<open>
  \<^verbatim>\<open>ep_lens == v\<close> for one entry of the array: numpy compares with a number by value and
  answers \<^verbatim>\<open>False\<close> for \<^verbatim>\<open>None\<close>.
\<close>

fun np_eq_scalar :: "int \<Rightarrow> pyval \<Rightarrow> bool" where
  "np_eq_scalar l (PyInt m) = (l = m)"
| "np_eq_scalar l (PyBool b) = (l = (if b then 1 else 0))"
| "np_eq_scalar l (PyFloat r) = (real_of_int l = r)"
| "np_eq_scalar l PyNone = False"

text \<open>
  Elementwise operations on one-dimensional arrays follow numpy's broadcasting: equal
  lengths combine entry by entry, an array of length one is stretched, anything else
  raises \<^verbatim>\<open>ValueError\<close>. An in-place operation (\<^verbatim>\<open>ep_rets += rewards\<close>) keeps the shape
  of its left operand.
\<close>

definition np_broadcast2 :: "('x \<Rightarrow> 'y \<Rightarrow> 'z) \<Rightarrow> 'x list \<Rightarrow> 'y list \<Rightarrow> error + 'z list" where
  "np_broadcast2 f xs ys =
     (if length xs = length ys then Inr (map2 f xs ys)
      else if length xs = 1 then Inr (map (f (hd xs)) ys)
      else if length ys = 1 then Inr (map (\<lambda>x. f x (hd ys)) xs)
      else Inl ValueError)"

definition np_inplace2 :: "('x \<Rightarrow> 'y \<Rightarrow> 'x) \<Rightarrow> 'x list \<Rightarrow> 'y list \<Rightarrow> error + 'x list" where
  "np_inplace2 f xs ys =
     (if length xs = length ys then Inr (map2 f xs ys)
      else if length ys = 1 then Inr (map (\<lambda>x. f x (hd ys)) xs)
      else Inl ValueError)"

text \<open>\<^verbatim>\<open>xs[flags] = 0.0\<close>: a boolean index of another length raises \<^verbatim>\<open>IndexError\<close>.\<close>

definition np_reset_where :: "bool list \<Rightarrow> 'x \<Rightarrow> 'x list \<Rightarrow> error + 'x list" where
  "np_reset_where flags z xs =
     (if length flags = length xs then Inr (map2 (\<lambda>d x. if d then z else x) flags xs)
      else Inl IndexError)"

section \<open>The configuration dataclass (config.py)\<close>

definition SACConfig_required :: "string list" where
  "SACConfig_required = [''num_seed_steps'', ''replay_buffer_capacity'', ''batch_size'']"

definition SACConfig_defaults :: "(string \<times> pyval) list" where
  "SACConfig_defaults =
     [(''num_envs'', PyInt 1),
      (''steps_per_env'', PyInt 1),
      (''grad_updates_per_step'', PyInt 1),
      (''tau'', PyFloat (5 / 1000)),
      (''discount'', PyFloat (99 / 100)),
      (''backup_entropy'', PyBool True),
      (''target_entropy'', PyNone),
      (''learnable_temp'', PyBool True),
      (''initial_temperature'', PyFloat 1),
      (''actor_update_freq'', PyInt 1),
      (''target_update_freq'', PyInt 1),
      (''eval_freq'', PyInt 5000),
      (''eval_steps'', PyInt 1000),
      (''num_eval_envs'', PyInt 4),
      (''log_freq'', PyInt 1000),
      (''save_freq'', PyInt 100000)]"

definition SACConfig_fields :: "string list" where
  "SACConfig_fields = SACConfig_required @ map fst SACConfig_defaults"

text \<open>
  \<^verbatim>\<open>SACConfig(**kwargs)\<close>, the constructor the dataclass decorator generates: a keyword
  that is no field and a required field that is missing are both a \<^verbatim>\<open>TypeError\<close>; the
  values are not checked; a field that is left out takes its default.
\<close>

definition SACConfig_init :: "(string \<times> pyval) list \<Rightarrow> error + attrs" where
  "SACConfig_init kwargs =
     (if list_ex (\<lambda>k. k \<notin> set SACConfig_fields) (map fst kwargs) then Inl TypeError
      else if list_ex (\<lambda>k. k \<notin> set (map fst kwargs)) SACConfig_required then Inl TypeError
      else Inr (map_of (kwargs @ SACConfig_defaults)))"

text \<open>
  \<^verbatim>\<open>TimeStep\<close> (config.py): a structure of arrays. Passed to \<^verbatim>\<open>store\<close> the arrays have one
  entry per environment; returned by \<^verbatim>\<open>sample_random_batch\<close> they have one entry per row
  of the batch. The field \<^verbatim>\<open>mask\<close> is named \<open>mask_t\<close> here.
\<close>

record ('o, 'a) TimeStep =
  action :: "'a list"
  env_obs :: "'o list"
  next_env_obs :: "'o list"
  reward :: "real list"
  mask_t :: "real list"

section \<open>The replay buffer\<close>

text \<open>
  Modelled from the spec: \<^verbatim>\<open>robojax.data.buffer.GenericBuffer\<close> is not among the sources.
  The spec's data model and its section 4.1 give: ring storage per field of shape
  \<^verbatim>\<open>[capacity_per_env, num_envs, ...]\<close> with
  \<^verbatim>\<open>capacity_per_env = ceil(buffer_size / n_envs)\<close>; \<^verbatim>\<open>store\<close> writes one timestep of
  per-environment data at the write cursor, advances the cursor modulo the capacity per
  environment and overwrites the oldest timestep once full; a \<^verbatim>\<open>store\<close> whose
  per-environment count does not match is fatal; \<^verbatim>\<open>sample_random_batch\<close> draws
  \<^verbatim>\<open>batch_size\<close> indices from the filled (timestep, environment) pairs and is fatal on
  an empty buffer. The storage holds the timesteps written so far (\<open>rows\<close>), so a slot
  that was never written is never read. The schema of field shapes and dtypes is left
  out, the mask is stored as a float as the schema of \<^verbatim>\<open>SAC.__init__\<close> asks.
\<close>

record ('o, 'a) GenericBuffer =
  buffer_size :: int
  n_envs :: int
  capacity_per_env :: nat
  rows :: "('o, 'a) TimeStep list"
  ptr :: nat

definition GenericBuffer_init :: "pyval \<Rightarrow> int \<Rightarrow> error + ('o, 'a) GenericBuffer" where
  "GenericBuffer_init bsize n =
     (case as_int bsize of Inl e \<Rightarrow> Inl e
      | Inr sz \<Rightarrow>
          if n = 0 then Inl ZeroDivisionError
          else if sz < 0 \<or> n < 0 then Inl ValueError
          else Inr \<lparr>buffer_size = sz, n_envs = n,
                    capacity_per_env = nat ((sz + n - 1) div n), rows = [], ptr = 0\<rparr>)"

definition store ::
  "('o, 'a) GenericBuffer \<Rightarrow> 'o list \<Rightarrow> real list \<Rightarrow> 'a list \<Rightarrow> bool list \<Rightarrow> 'o list
     \<Rightarrow> error + ('o, 'a) GenericBuffer" where
  "store b obs rew act msk next_obs =
     (let n = nat (n_envs b) in
      if length obs = n \<and> length rew = n \<and> length act = n \<and> length msk = n
           \<and> length next_obs = n then
        (if capacity_per_env b = 0 then Inl IndexError
         else
           let row = \<lparr>action = act, env_obs = obs, next_env_obs = next_obs, reward = rew,
                        mask_t = map (\<lambda>m. if m then 1 else 0) msk\<rparr>
           in Inr (b\<lparr>rows := (if length (rows b) < capacity_per_env b then rows b @ [row]
                               else (rows b)[ptr b := row]),
                      ptr := (ptr b + 1) mod capacity_per_env b\<rparr>))
      else Inl ValueError)"

definition pick_rows ::
  "('o, 'a) TimeStep list \<Rightarrow> nat \<Rightarrow> nat list \<Rightarrow> (('o, 'a) TimeStep \<Rightarrow> 'x list) \<Rightarrow> 'x list" where
  "pick_rows rs n idx f = map (\<lambda>i. f (rs ! (i div n)) ! (i mod n)) idx"

definition sample_random_batch ::
  "('k \<Rightarrow> nat \<Rightarrow> nat \<Rightarrow> nat) \<Rightarrow> ('o, 'a) GenericBuffer \<Rightarrow> 'k \<Rightarrow> pyval
     \<Rightarrow> error + ('o, 'a) TimeStep" where
  "sample_random_batch draw b key batch_size =
     (case as_int batch_size of Inl e \<Rightarrow> Inl e
      | Inr bs \<Rightarrow>
          let n = nat (n_envs b); valid = length (rows b) * n in
          if bs < 0 \<or> valid = 0 then Inl ValueError
          else
            let idx = map (\<lambda>j. draw key valid j mod valid) [0..<nat bs]
            in Inr \<lparr>action = pick_rows (rows b) n idx action,
                      env_obs = pick_rows (rows b) n idx env_obs,
                      next_env_obs = pick_rows (rows b) n idx next_env_obs,
                      reward = pick_rows (rows b) n idx reward,
                      mask_t = pick_rows (rows b) n idx mask_t\<rparr>)"

section \<open>The agent object and its collaborators\<close>

text \<open>\<^verbatim>\<open>SAC.__init__\<close>: the configuration argument is a dictionary or a ready object.\<close>

datatype cfg_arg = CfgDict "(string \<times> pyval) list" | CfgObj attrs

record ('o, 'a) SAC =
  cfg :: attrs
  jax_env :: bool
  step :: int
  replay_buffer :: "('o, 'a) GenericBuffer"

text \<open>
  \<^verbatim>\<open>action_dim\<close> comes from the base class \<^verbatim>\<open>BasePolicy\<close>, which is not among the sources; it
  is a parameter. The buffer is built with \<^verbatim>\<open>n_envs=1\<close>, whatever \<^verbatim>\<open>cfg.num_envs\<close> says.
\<close>

definition SAC_init :: "bool \<Rightarrow> int \<Rightarrow> cfg_arg \<Rightarrow> error + ('o, 'a) SAC" where
  "SAC_init is_jax action_dim carg =
     (case (case carg of CfgDict d \<Rightarrow> SACConfig_init d | CfgObj obj \<Rightarrow> Inr obj) of
        Inl e \<Rightarrow> Inl e
      | Inr c \<Rightarrow>
         (case getattr c ''replay_buffer_capacity'' of Inl e \<Rightarrow> Inl e
          | Inr cap \<Rightarrow>
             (case GenericBuffer_init cap 1 of Inl e \<Rightarrow> Inl e
              | Inr buf \<Rightarrow>
                 (case getattr c ''target_entropy'' of Inl e \<Rightarrow> Inl e
                  | Inr te \<Rightarrow>
                      Inr \<lparr>cfg = (if te = PyNone
                                   then c(''target_entropy'' \<mapsto> PyFloat (- real_of_int action_dim / 2))
                                   else c),
                           jax_env = is_jax, step = 0, replay_buffer = buf\<rparr>))))"

text \<open>
  The auxiliary outputs of the loss functions (\<^verbatim>\<open>robojax.agents.sac.loss\<close>, not among the
  sources), with the attributes the training loop reads from them. A value the default
  constructor leaves unset is \<open>None\<close>. The attribute \<^verbatim>\<open>temp\<close> of \<^verbatim>\<open>TempUpdateAux\<close> is named
  \<open>aux_temp\<close> here.
\<close>

record CriticUpdateAux =
  critic_loss :: real
  q1 :: real
  q2 :: real

record ActorUpdateAux =
  actor_loss :: "real option"
  entropy :: "real option"

record TempUpdateAux =
  aux_temp :: real
  temp_loss :: "real option"

text \<open>
  The collaborators of the agent, which the sources only call: the random-key splitter
  (\<open>random_split W k n i\<close> is entry \<open>i\<close> of \<^verbatim>\<open>jax.random.split(k, n)\<close>), the seed sampler,
  the actor's action distribution, the two kinds of environment (the stateful one with
  its simulator state made explicit), the index generator of the replay buffer, and the
  loss functions. Keys are \<open>'k\<close>, observations \<open>'o\<close>, actions \<open>'a\<close>, environment states
  \<open>'e\<close> and parameter bundles \<open>'m\<close>; observations and actions are arrays with one entry per
  environment.
\<close>

record ('k, 'o, 'a, 'e, 'm) world =
  random_split :: "'k \<Rightarrow> nat \<Rightarrow> nat \<Rightarrow> 'k"
  seed_sampler :: "'k \<Rightarrow> 'a list"
  actor_sample :: "'m \<Rightarrow> 'o list \<Rightarrow> 'k \<Rightarrow> 'a list"
  gym_reset :: "'e \<Rightarrow> 'e \<times> 'o list"
  gym_step :: "'e \<Rightarrow> 'a list \<Rightarrow> 'e \<times> 'o list \<times> real list \<times> bool list"
  jax_reset :: "'k \<Rightarrow> 'o list \<times> 'e"
  jax_step :: "'k \<Rightarrow> 'e option \<Rightarrow> 'a list \<Rightarrow> 'o list \<times> 'e \<times> real list \<times> bool list"
  randint :: "'k \<Rightarrow> nat \<Rightarrow> nat \<Rightarrow> nat"
  update_critic ::
    "'k \<Rightarrow> 'm \<Rightarrow> 'm \<Rightarrow> 'm \<Rightarrow> 'm \<Rightarrow> ('o, 'a) TimeStep \<Rightarrow> pyval \<Rightarrow> pyval \<Rightarrow> 'm \<times> CriticUpdateAux"
  update_actor :: "'k \<Rightarrow> 'm \<Rightarrow> 'm \<Rightarrow> 'm \<Rightarrow> ('o, 'a) TimeStep \<Rightarrow> 'm \<times> ActorUpdateAux"
  update_temp :: "'m \<Rightarrow> real option \<Rightarrow> pyval \<Rightarrow> 'm \<times> TempUpdateAux"
  update_target :: "'m \<Rightarrow> 'm \<Rightarrow> pyval \<Rightarrow> 'm"
  temp_value :: "'m \<Rightarrow> real"

section \<open>Action selection and the environment step (sac.py, lines 77 to 97)\<close>

text \<open>\<^verbatim>\<open>SAC._sample_action\<close>.\<close>

definition SAC_sample_action ::
  "('k, 'o, 'a, 'e, 'm) world \<Rightarrow> 'k \<Rightarrow> 'm \<Rightarrow> 'o list \<Rightarrow> bool \<Rightarrow> 'a list" where
  "SAC_sample_action W rng_key actor obs seed =
     (if seed then seed_sampler W rng_key else actor_sample W actor obs rng_key)"

text \<open>
  \<^verbatim>\<open>SAC._env_step\<close>: the key is split in three, the second part selects the action, the
  third steps a functional environment. A stateful environment is stepped on its own
  simulator state \<open>sim\<close> and returns \<^verbatim>\<open>None\<close> as the next environment state. The result is
  the simulator state followed by the source's tuple without \<^verbatim>\<open>info\<close>.
\<close>

definition SAC_env_step ::
  "('k, 'o, 'a, 'e, 'm) world \<Rightarrow> bool \<Rightarrow> 'e \<Rightarrow> 'k \<Rightarrow> 'o list \<Rightarrow> 'e option \<Rightarrow> 'm \<Rightarrow> bool
     \<Rightarrow> 'e \<times> 'a list \<times> 'o list \<times> 'e option \<times> real list \<times> bool list" where
  "SAC_env_step W is_jax sim rng_key obs env_state actor seed =
     (let act_rng_key = random_split W rng_key 3 1;
          env_rng_key = random_split W rng_key 3 2;
          a = SAC_sample_action W act_rng_key actor obs seed
      in if is_jax then
           (case jax_step W env_rng_key env_state a of
              (next_obs, next_state, rew, done) \<Rightarrow> (sim, a, next_obs, Some next_state, rew, done))
         else
           (case gym_step W sim a of
              (sim', next_obs, rew, done) \<Rightarrow> (sim', a, next_obs, None, rew, done)))"

section \<open>One update cycle (sac.py, lines 211 to 245)\<close>

text \<open>
  \<^verbatim>\<open>SAC.update_parameters\<close>. The options \<^verbatim>\<open>discount\<close>, \<^verbatim>\<open>backup_entropy\<close>, \<^verbatim>\<open>tau\<close> and
  \<^verbatim>\<open>target_entropy\<close> are read from the configuration where the source reads them and
  handed to the loss functions as they are.
\<close>

definition update_parameters ::
  "('k, 'o, 'a, 'e, 'm) world \<Rightarrow> attrs \<Rightarrow> 'k \<Rightarrow> 'm \<Rightarrow> 'm \<Rightarrow> 'm \<Rightarrow> 'm \<Rightarrow> ('o, 'a) TimeStep
     \<Rightarrow> bool \<Rightarrow> bool
     \<Rightarrow> error + ('m \<times> 'm \<times> 'm \<times> 'm \<times> CriticUpdateAux \<times> ActorUpdateAux \<times> TempUpdateAux)" where
  "update_parameters W c rng_key actor critic target_critic temp batch upd_actor upd_target =
     (let rng_key1 = random_split W rng_key 2 0;
          critic_update_rng_key = random_split W rng_key 2 1
      in
      (case getattr c ''discount'' of Inl e \<Rightarrow> Inl e
       | Inr discount \<Rightarrow>
      (case getattr c ''backup_entropy'' of Inl e \<Rightarrow> Inl e
       | Inr backup_entropy \<Rightarrow>
      (case update_critic W critic_update_rng_key actor critic target_critic temp batch
              discount backup_entropy of
         (new_critic, critic_update_aux) \<Rightarrow>
      (case (if upd_target then
               (case getattr c ''tau'' of Inl e \<Rightarrow> Inl e
                | Inr tau \<Rightarrow> Inr (update_target W critic target_critic tau))
             else Inr target_critic) of Inl e \<Rightarrow> Inl e
       | Inr new_target \<Rightarrow>
      (let no_actor_aux = \<lparr>actor_loss = None, entropy = None\<rparr>;
           no_temp_aux = \<lparr>aux_temp = temp_value W temp, temp_loss = None\<rparr>
       in
       if upd_actor then
         (let actor_update_rng_key = random_split W rng_key1 2 1 in
          (case update_actor W actor_update_rng_key actor critic temp batch of
             (new_actor, actor_update_aux) \<Rightarrow>
          (case getattr c ''learnable_temp'' of Inl e \<Rightarrow> Inl e
           | Inr learnable \<Rightarrow>
              if truthy learnable then
                (case getattr c ''target_entropy'' of Inl e \<Rightarrow> Inl e
                 | Inr target_entropy \<Rightarrow>
                    (case update_temp W temp (entropy actor_update_aux) target_entropy of
                       (new_temp, temp_update_aux) \<Rightarrow>
                         Inr (new_actor, new_critic, new_target, new_temp,
                              critic_update_aux, actor_update_aux, temp_update_aux)))
              else Inr (new_actor, new_critic, new_target, temp,
                        critic_update_aux, actor_update_aux, no_temp_aux))))
       else Inr (actor, new_critic, new_target, temp,
                 critic_update_aux, no_actor_aux, no_temp_aux)))))))"

section \<open>The training loop (sac.py, lines 99 to 209)\<close>

text \<open>
  What the loop does to its collaborators is recorded as a list of events, oldest first:
  an evaluation rollout, a flush of finished episodes to the logger, an environment step
  with its \<^verbatim>\<open>seed\<close> flag, a \<^verbatim>\<open>replay_buffer.store\<close> with the mask it is given, a call of
  \<^verbatim>\<open>update_parameters\<close> with its two flags, and a log of training metrics. Each event
  carries the value of \<^verbatim>\<open>self.step\<close> at that moment. The list is not part of the program; it
  is what the theorems about the schedule speak of.
\<close>

datatype event =
    Evaluate int
  | LogEpisodes int
  | EnvStep int bool
  | Store int "bool list"
  | Update int bool bool
  | LogTrain int

text \<open>
  The state of a run of \<^verbatim>\<open>train\<close>: the agent object, the \<^verbatim>\<open>ActorCritic\<close> object \<^verbatim>\<open>ac\<close> whose
  four attributes the loop reassigns, the simulator of a stateful environment, and the
  local variables of \<^verbatim>\<open>train\<close>. A local variable that has not been assigned is \<open>None\<close>
  (\<^verbatim>\<open>env_states\<close> in the branch of a functional environment). \<^verbatim>\<open>dones\<close> starts as an array
  of zeros, which \<^verbatim>\<open>dones.any()\<close> reads as all false. The episode lengths count by one
  from zero and are kept as integers. The locals \<^verbatim>\<open>stime\<close>, \<^verbatim>\<open>episodes\<close>, \<^verbatim>\<open>stats\<close> and
  \<^verbatim>\<open>infos\<close> are never read and left out, as is the progress bar after its construction.
\<close>

record ('k, 'o, 'a, 'e, 'm) train_state = "('o, 'a) SAC" +
  ac_actor :: 'm
  ac_critic :: 'm
  ac_target_critic :: 'm
  ac_temp :: 'm
  env_sim :: 'e
  loc_rng_key :: 'k
  loc_env_obs :: "'o list"
  loc_env_states :: "'e option option"
  loc_ep_lens :: "int list"
  loc_ep_rets :: "real list"
  loc_dones :: "bool list"
  trace :: "event list"

text \<open>
  Line 112, with Python's left-to-right evaluation of \<^verbatim>\<open>and\<close>: the remainder is taken
  first, so \<^verbatim>\<open>eval_freq = 0\<close> raises \<^verbatim>\<open>ZeroDivisionError\<close> before \<^verbatim>\<open>eval_freq > 0\<close> is
  looked at; \<^verbatim>\<open>num_seed_steps\<close> is read only when the first two conjuncts hold.
\<close>

definition eval_due :: "attrs \<Rightarrow> int \<Rightarrow> error + bool" where
  "eval_due c s =
     (case int_attr c ''eval_freq'' of Inl e \<Rightarrow> Inl e
      | Inr f \<Rightarrow>
          if f = 0 then Inl ZeroDivisionError
          else if s mod f \<noteq> 0 then Inr False
          else if \<not> s > 0 then Inr False
          else (case int_attr c ''num_seed_steps'' of Inl e \<Rightarrow> Inl e
                | Inr n \<Rightarrow> if \<not> s \<ge> n then Inr False else Inr (f > 0)))"

text \<open>
  \<^verbatim>\<open>SAC.evaluate\<close> (lines 246 to 265): it reads two options, asks for
  \<^verbatim>\<open>num_eval_envs + 1\<close> keys of which at least two are needed (one to keep, one or more to
  stack), and calls the evaluation loop and the logger, which leave the agent as it is.
\<close>

definition evaluate :: "attrs \<Rightarrow> error + unit" where
  "evaluate c =
     (case int_attr c ''num_eval_envs'' of Inl e \<Rightarrow> Inl e
      | Inr n \<Rightarrow>
          if n \<le> 0 then Inl ValueError
          else (case getattr c ''eval_steps'' of Inl e \<Rightarrow> Inl e | Inr _ \<Rightarrow> Inr ()))"

definition eval_phase ::
  "('k, 'o, 'a, 'e, 'm) world \<Rightarrow> ('k, 'o, 'a, 'e, 'm) train_state
     \<Rightarrow> error + ('k, 'o, 'a, 'e, 'm) train_state" where
  "eval_phase W st =
     (case eval_due (cfg st) (step st) of Inl e \<Rightarrow> Inl e
      | Inr due \<Rightarrow>
          if due then
            (case evaluate (cfg st) of Inl e \<Rightarrow> Inl e
             | Inr _ \<Rightarrow> Inr (st\<lparr>loc_rng_key := random_split W (loc_rng_key st) 2 0,
                                trace := trace st @ [Evaluate (step st)]\<rparr>))
          else Inr st)"

text \<open>Lines 115 to 126.\<close>

definition flush_phase ::
  "('k, 'o, 'a, 'e, 'm) train_state \<Rightarrow> error + ('k, 'o, 'a, 'e, 'm) train_state" where
  "flush_phase st =
     (if list_ex (\<lambda>d. d) (loc_dones st) then
        (case np_reset_where (loc_dones st) 0 (loc_ep_rets st) of Inl e \<Rightarrow> Inl e
         | Inr rets \<Rightarrow>
            (case np_reset_where (loc_dones st) 0 (loc_ep_lens st) of Inl e \<Rightarrow> Inl e
             | Inr lens \<Rightarrow>
                 Inr (st\<lparr>loc_ep_lens := lens, loc_ep_rets := rets,
                         trace := trace st @ [LogEpisodes (step st)]\<rparr>)))
      else Inr st)"

text \<open>
  Lines 128 to 154: the environment step, the counters, the mask and the store. The mask
  is \<^verbatim>\<open>(~dones) | (ep_lens == self.cfg.max_episode_length)\<close>, taken after \<^verbatim>\<open>ep_lens += 1\<close>.
\<close>

definition env_phase ::
  "('k, 'o, 'a, 'e, 'm) world \<Rightarrow> ('k, 'o, 'a, 'e, 'm) train_state
     \<Rightarrow> error + ('k, 'o, 'a, 'e, 'm) train_state" where
  "env_phase W st =
     (let rng_key1 = random_split W (loc_rng_key st) 2 0;
          env_rng_key = random_split W (loc_rng_key st) 2 1
      in
      (case loc_env_states st of None \<Rightarrow> Inl (UnboundLocalError ''env_states'')
       | Some env_states \<Rightarrow>
      (case int_attr (cfg st) ''num_seed_steps'' of Inl e \<Rightarrow> Inl e
       | Inr n \<Rightarrow>
      (case SAC_env_step W (jax_env st) (env_sim st) env_rng_key (loc_env_obs st) env_states
              (ac_actor st) (step st < n) of
         (sim', actions, next_obs, next_env_states, rewards, dns) \<Rightarrow>
      (let lens = map (\<lambda>l. l + 1) (loc_ep_lens st) in
      (case np_inplace2 (\<lambda>x r. x + r) (loc_ep_rets st) rewards of Inl e \<Rightarrow> Inl e
       | Inr rets \<Rightarrow>
      (case getattr (cfg st) ''max_episode_length'' of Inl e \<Rightarrow> Inl e
       | Inr max_len \<Rightarrow>
      (case np_broadcast2 (\<lambda>d t. \<not> d \<or> t) dns (map (\<lambda>l. np_eq_scalar l max_len) lens) of
         Inl e \<Rightarrow> Inl e
       | Inr msk \<Rightarrow>
      (case store (replay_buffer st) (loc_env_obs st) rewards actions msk next_obs of
         Inl e \<Rightarrow> Inl e
       | Inr buf \<Rightarrow>
           Inr (st\<lparr>step := step st + 1, replay_buffer := buf, env_sim := sim',
                   loc_rng_key := rng_key1, loc_env_obs := next_obs,
                   loc_env_states := Some next_env_states, loc_ep_lens := lens,
                   loc_ep_rets := rets, loc_dones := dns,
                   trace := trace st @ [EnvStep (step st) (step st < n),
                                        Store (step st + 1) msk]\<rparr>))))))))))"

text \<open>\<^verbatim>\<open>self.step % self.cfg.<name> == 0\<close> (lines 159 and 160).\<close>

definition step_divides :: "attrs \<Rightarrow> string \<Rightarrow> int \<Rightarrow> error + bool" where
  "step_divides c name s =
     (case int_attr c name of Inl e \<Rightarrow> Inl e
      | Inr f \<Rightarrow> if f = 0 then Inl ZeroDivisionError else Inr (s mod f = 0))"

text \<open>Line 188: \<^verbatim>\<open>self.cfg.log_freq > 0 and self.step % self.cfg.log_freq == 0\<close>.\<close>

definition log_due :: "attrs \<Rightarrow> int \<Rightarrow> error + bool" where
  "log_due c s =
     (case int_attr c ''log_freq'' of Inl e \<Rightarrow> Inl e
      | Inr f \<Rightarrow> if f > 0 then Inr (s mod f = 0) else Inr False)"

text \<open>
  Lines 189 to 208, as far as they can raise: \<^verbatim>\<open>float\<close> of a value that is \<^verbatim>\<open>None\<close> is a
  \<^verbatim>\<open>TypeError\<close>. The logger itself is a collaborator and is taken to return.
\<close>

fun py_float :: "pyval \<Rightarrow> error + unit" where
  "py_float PyNone = Inl TypeError"
| "py_float v = Inr ()"

definition log_train :: "attrs \<Rightarrow> bool \<Rightarrow> ActorUpdateAux \<Rightarrow> TempUpdateAux \<Rightarrow> error + unit" where
  "log_train c upd_actor actor_aux temp_aux =
     (if upd_actor then
        (if actor_loss actor_aux = None \<or> entropy actor_aux = None then Inl TypeError
         else
          (case getattr c ''target_entropy'' of Inl e \<Rightarrow> Inl e
           | Inr te \<Rightarrow>
              (case py_float te of Inl e \<Rightarrow> Inl e
               | Inr _ \<Rightarrow>
                  (case getattr c ''learnable_temp'' of Inl e \<Rightarrow> Inl e
                   | Inr learnable \<Rightarrow>
                       if truthy learnable \<and> temp_loss temp_aux = None then Inl TypeError
                       else Inr ()))))
      else Inr ())"

text \<open>Lines 157 to 208: the gated update cycle and the reassignment of \<^verbatim>\<open>ac\<close>.\<close>

definition update_phase ::
  "('k, 'o, 'a, 'e, 'm) world \<Rightarrow> ('k, 'o, 'a, 'e, 'm) train_state
     \<Rightarrow> error + ('k, 'o, 'a, 'e, 'm) train_state" where
  "update_phase W st =
     (case int_attr (cfg st) ''num_seed_steps'' of Inl e \<Rightarrow> Inl e
      | Inr n \<Rightarrow>
         if step st \<ge> n then
           (let rng_key1 = random_split W (loc_rng_key st) 3 0;
                update_rng_key = random_split W (loc_rng_key st) 3 1;
                sample_key = random_split W (loc_rng_key st) 3 2
            in
            (case step_divides (cfg st) ''actor_update_freq'' (step st) of Inl e \<Rightarrow> Inl e
             | Inr upd_actor \<Rightarrow>
            (case step_divides (cfg st) ''target_update_freq'' (step st) of Inl e \<Rightarrow> Inl e
             | Inr upd_target \<Rightarrow>
            (case getattr (cfg st) ''batch_size'' of Inl e \<Rightarrow> Inl e
             | Inr bs \<Rightarrow>
            (case sample_random_batch (randint W) (replay_buffer st) sample_key bs of
               Inl e \<Rightarrow> Inl e
             | Inr batch \<Rightarrow>
            (case update_parameters W (cfg st) update_rng_key (ac_actor st) (ac_critic st)
                    (ac_target_critic st) (ac_temp st) batch upd_actor upd_target of
               Inl e \<Rightarrow> Inl e
             | Inr (new_actor, new_critic, new_target_critic, new_temp,
                    critic_aux, actor_aux, temp_aux) \<Rightarrow>
            (case log_due (cfg st) (step st) of Inl e \<Rightarrow> Inl e
             | Inr logging \<Rightarrow>
            (case (if logging then log_train (cfg st) upd_actor actor_aux temp_aux
                   else Inr ()) of Inl e \<Rightarrow> Inl e
             | Inr _ \<Rightarrow>
                 Inr (st\<lparr>ac_actor := new_actor, ac_critic := new_critic,
                         ac_target_critic := new_target_critic, ac_temp := new_temp,
                         loc_rng_key := rng_key1,
                         trace := trace st @ Update (step st) upd_actor upd_target
                                    # (if logging then [LogTrain (step st)] else [])\<rparr>)))))))))
         else Inr st)"

text \<open>One pass through the body of the \<^verbatim>\<open>while\<close> loop.\<close>

definition train_iter ::
  "('k, 'o, 'a, 'e, 'm) world \<Rightarrow> ('k, 'o, 'a, 'e, 'm) train_state
     \<Rightarrow> error + ('k, 'o, 'a, 'e, 'm) train_state" where
  "train_iter W st =
     (case eval_phase W st of Inl e \<Rightarrow> Inl e
      | Inr st1 \<Rightarrow>
         (case flush_phase st1 of Inl e \<Rightarrow> Inl e
          | Inr st2 \<Rightarrow>
             (case env_phase W st2 of Inl e \<Rightarrow> Inl e
              | Inr st3 \<Rightarrow> update_phase W st3)))"

text \<open>
  The body leaves the configuration alone and advances \<^verbatim>\<open>self.step\<close> by one; the loop
  below terminates because of that.
\<close>

lemma eval_phase_frame:
  "eval_phase W st = Inr st' \<Longrightarrow> cfg st' = cfg st \<and> step st' = step st"
  by (auto simp: eval_phase_def split: sum.splits if_splits)

lemma flush_phase_frame:
  "flush_phase st = Inr st' \<Longrightarrow> cfg st' = cfg st \<and> step st' = step st"
  by (auto simp: flush_phase_def split: sum.splits if_splits)

lemma env_phase_frame:
  "env_phase W st = Inr st' \<Longrightarrow> cfg st' = cfg st \<and> step st' = step st + 1"
  by (auto simp: env_phase_def Let_def split: sum.splits option.splits prod.splits)

lemma update_phase_frame:
  "update_phase W st = Inr st' \<Longrightarrow> cfg st' = cfg st \<and> step st' = step st"
  by (auto simp: update_phase_def Let_def split: sum.splits if_splits prod.splits)

lemma train_iter_frame:
  "train_iter W st = Inr st' \<Longrightarrow> cfg st' = cfg st \<and> step st' = step st + 1"
  unfolding train_iter_def
  by (auto split: sum.splits
        dest!: eval_phase_frame flush_phase_frame env_phase_frame update_phase_frame)

definition loop_bound :: "attrs \<Rightarrow> int" where
  "loop_bound c = (case int_attr c ''num_train_steps'' of Inl e \<Rightarrow> 0 | Inr n \<Rightarrow> n)"

text \<open>Line 111: \<^verbatim>\<open>while self.step < self.cfg.num_train_steps\<close>.\<close>

function train_loop ::
  "('k, 'o, 'a, 'e, 'm) world \<Rightarrow> ('k, 'o, 'a, 'e, 'm) train_state
     \<Rightarrow> error + ('k, 'o, 'a, 'e, 'm) train_state" where
  "train_loop W st =
     (case int_attr (cfg st) ''num_train_steps'' of Inl e \<Rightarrow> Inl e
      | Inr n \<Rightarrow>
          if step st < n then
            (case train_iter W st of Inl e \<Rightarrow> Inl e | Inr st' \<Rightarrow> train_loop W st')
          else Inr st)"
  by pat_completeness auto
termination
  by (relation "measure (\<lambda>(W, st). nat (loop_bound (cfg st) - step st))")
     (auto simp: loop_bound_def dest!: train_iter_frame)

declare train_loop.simps [simp del]

text \<open>
  Lines 100 to 110: the locals before the loop. With a functional environment the reset
  assigns \<^verbatim>\<open>env_state\<close>, not \<^verbatim>\<open>env_states\<close>, which stays unassigned. The progress bar reads
  \<^verbatim>\<open>self.cfg.num_train_steps\<close>.
\<close>

definition train_begin ::
  "('k, 'o, 'a, 'e, 'm) world \<Rightarrow> ('o, 'a) SAC \<Rightarrow> 'm \<Rightarrow> 'm \<Rightarrow> 'm \<Rightarrow> 'm \<Rightarrow> 'e \<Rightarrow> 'k
     \<Rightarrow> error + ('k, 'o, 'a, 'e, 'm) train_state" where
  "train_begin W sac actor critic target_critic temp sim rng_key =
     (case getattr (cfg sac) ''num_envs'' of Inl e \<Rightarrow> Inl e
      | Inr num_envs \<Rightarrow>
         (case np_zeros_len num_envs of Inl e \<Rightarrow> Inl e
          | Inr n \<Rightarrow>
             (let rng_key1 = random_split W rng_key 2 0;
                  reset_rng_key = random_split W rng_key 2 1;
                  after_reset =
                    (if jax_env sac then (sim, fst (jax_reset W reset_rng_key), None)
                     else (fst (gym_reset W sim), snd (gym_reset W sim), Some None))
              in
              (case after_reset of (sim', obs, states) \<Rightarrow>
              (case getattr (cfg sac) ''num_train_steps'' of Inl e \<Rightarrow> Inl e
               | Inr _ \<Rightarrow>
                   Inr \<lparr>cfg = cfg sac, jax_env = jax_env sac, step = step sac,
                        replay_buffer = replay_buffer sac,
                        ac_actor = actor, ac_critic = critic,
                        ac_target_critic = target_critic, ac_temp = temp,
                        env_sim = sim', loc_rng_key = rng_key1, loc_env_obs = obs,
                        loc_env_states = states, loc_ep_lens = replicate n 0,
                        loc_ep_rets = replicate n 0, loc_dones = replicate n False,
                        trace = []\<rparr>)))))"

text \<open>\<^verbatim>\<open>SAC.train\<close>.\<close>

definition train ::
  "('k, 'o, 'a, 'e, 'm) world \<Rightarrow> ('o, 'a) SAC \<Rightarrow> 'm \<Rightarrow> 'm \<Rightarrow> 'm \<Rightarrow> 'm \<Rightarrow> 'e \<Rightarrow> 'k
     \<Rightarrow> error + ('k, 'o, 'a, 'e, 'm) train_state" where
  "train W sac actor critic target_critic temp sim rng_key =
     (case train_begin W sac actor critic target_critic temp sim rng_key of Inl e \<Rightarrow> Inl e
      | Inr st \<Rightarrow> train_loop W st)"

section \<open>The events of a run\<close>

text \<open>
  What one pass through the loop body adds to the list of events, before and after the
  environment step and the store.
\<close>

definition pre_events :: "attrs \<Rightarrow> int \<Rightarrow> bool list \<Rightarrow> event list" where
  "pre_events c s dns =
     (if eval_due c s = Inr True then [Evaluate s] else [])
     @ (if list_ex (\<lambda>d. d) dns then [LogEpisodes s] else [])"

definition post_events :: "attrs \<Rightarrow> int \<Rightarrow> int \<Rightarrow> event list" where
  "post_events c n s =
     (if n \<le> s
      then Update s (step_divides c ''actor_update_freq'' s = Inr True)
                    (step_divides c ''target_update_freq'' s = Inr True)
           # (if log_due c s = Inr True then [LogTrain s] else [])
      else [])"



lemma eval_due_True:
  "eval_due c s = Inr True \<longleftrightarrow>
     (\<exists>f n. int_attr c ''eval_freq'' = Inr f \<and> int_attr c ''num_seed_steps'' = Inr n
            \<and> s mod f = 0 \<and> 0 < s \<and> n \<le> s \<and> 0 < f)"
  by (auto simp: eval_due_def split: sum.splits)

lemma eval_phase_trace:
  assumes "eval_phase W st = Inr st'"
  shows "trace st' = trace st @ (if eval_due (cfg st) (step st) = Inr True then [Evaluate (step st)] else [])"
    and "loc_dones st' = loc_dones st"
  using assms by (auto simp: eval_phase_def split: sum.splits if_splits)

lemma flush_phase_trace:
  assumes "flush_phase st = Inr st'"
  shows "trace st' = trace st @ (if list_ex (\<lambda>d. d) (loc_dones st) then [LogEpisodes (step st)] else [])"
  using assms by (auto simp: flush_phase_def split: sum.splits if_splits)

lemma env_phase_trace:
  assumes "env_phase W st = Inr st'"
  shows "\<exists>n msk max_len. int_attr (cfg st) ''num_seed_steps'' = Inr n
           \<and> trace st' = trace st @ [EnvStep (step st) (step st < n), Store (step st + 1) msk]
           \<and> getattr (cfg st) ''max_episode_length'' = Inr max_len
           \<and> np_broadcast2 (\<lambda>d t. \<not> d \<or> t) (loc_dones st')
                (map (\<lambda>l. np_eq_scalar l max_len) (loc_ep_lens st')) = Inr msk"
  using assms
  by (auto simp: env_phase_def Let_def simp del: disj_not1
           split: sum.splits option.splits prod.splits)

lemma update_phase_trace:
  assumes "update_phase W st = Inr st'"
  shows "\<exists>n. int_attr (cfg st) ''num_seed_steps'' = Inr n
           \<and> trace st' = trace st @ post_events (cfg st) n (step st)"
    and "loc_dones st' = loc_dones st" and "loc_ep_lens st' = loc_ep_lens st"
  using assms
  by (auto simp: update_phase_def post_events_def Let_def split: sum.splits if_splits prod.splits)

lemma train_iter_trace:
  assumes "train_iter W st = Inr st'"
  shows "\<exists>n msk max_len.
           int_attr (cfg st) ''num_seed_steps'' = Inr n
         \<and> trace st' = trace st @ pre_events (cfg st) (step st) (loc_dones st)
                          @ [EnvStep (step st) (step st < n), Store (step st + 1) msk]
                          @ post_events (cfg st) n (step st + 1)
         \<and> getattr (cfg st) ''max_episode_length'' = Inr max_len
         \<and> np_broadcast2 (\<lambda>d t. \<not> d \<or> t) (loc_dones st')
              (map (\<lambda>l. np_eq_scalar l max_len) (loc_ep_lens st')) = Inr msk"
proof -
  from assms obtain st1 st2 st3 where
    p1: "eval_phase W st = Inr st1" and p2: "flush_phase st1 = Inr st2" and
    p3: "env_phase W st2 = Inr st3" and p4: "update_phase W st3 = Inr st'"
    by (auto simp: train_iter_def split: sum.splits)
  note f1 = eval_phase_frame [OF p1] and f2 = flush_phase_frame [OF p2]
    and f3 = env_phase_frame [OF p3]
  have c2: "cfg st2 = cfg st" "step st2 = step st" using f1 f2 by simp_all
  have c3: "cfg st3 = cfg st" "step st3 = step st + 1" using f3 c2 by simp_all
  have t2: "trace st2 = trace st @ pre_events (cfg st) (step st) (loc_dones st)"
    using eval_phase_trace [OF p1] flush_phase_trace [OF p2] f1 by (simp add: pre_events_def)
  from env_phase_trace [OF p3] obtain n msk max_len where
    n: "int_attr (cfg st) ''num_seed_steps'' = Inr n" and
    t3: "trace st3 = trace st2 @ [EnvStep (step st) (step st < n), Store (step st + 1) msk]" and
    ml: "getattr (cfg st) ''max_episode_length'' = Inr max_len" and
    mk: "np_broadcast2 (\<lambda>d t. \<not> d \<or> t) (loc_dones st3)
              (map (\<lambda>l. np_eq_scalar l max_len) (loc_ep_lens st3)) = Inr msk"
    unfolding c2 by blast
  from update_phase_trace(1) [OF p4] n
  have t4: "trace st' = trace st3 @ post_events (cfg st) n (step st + 1)"
    unfolding c3 by auto
  have keep: "loc_dones st' = loc_dones st3" "loc_ep_lens st' = loc_ep_lens st3"
    using update_phase_trace(2,3) [OF p4] by simp_all
  show ?thesis
    using n t2 t3 t4 ml mk keep by auto
qed

text \<open>An invariant of the loop body holds after the loop.\<close>

lemma train_loop_invariant:
  assumes run: "train_loop W st = Inr st'"
      and init: "I st"
      and pres: "\<And>s s'. I s \<Longrightarrow> train_iter W s = Inr s' \<Longrightarrow> I s'"
  shows "I st'"
  using run init pres
proof (induction W st rule: train_loop.induct)
  case (1 W st)
  from "1.prems"(1) obtain n where n: "int_attr (cfg st) ''num_train_steps'' = Inr n"
    by (subst (asm) train_loop.simps) (auto split: sum.splits)
  show ?case
  proof (cases "step st < n")
    case True
    with "1.prems"(1) n obtain st1 where it: "train_iter W st = Inr st1"
      and rest: "train_loop W st1 = Inr st'"
      by (subst (asm) train_loop.simps) (auto split: sum.splits)
    have "I st1" using "1.prems"(3) [OF "1.prems"(2) it] .
    from "1.IH" [OF n True it rest this "1.prems"(3)] show ?thesis by simp
  next
    case False
    with "1.prems"(1) n have "st' = st"
      by (subst (asm) train_loop.simps) auto
    with "1.prems"(2) show ?thesis by simp
  qed
qed

lemma train_begin_Inr:
  assumes "train_begin W sac actor critic target_critic temp sim rng_key = Inr st"
  shows "cfg st = cfg sac" and "step st = step sac" and "trace st = []"
  using assms
  by (auto simp: train_begin_def Let_def split: sum.splits prod.splits)









lemma train_Inr:
  assumes "train W sac actor critic target_critic temp sim rng_key = Inr st'"
  obtains st0 where "train_begin W sac actor critic target_critic temp sim rng_key = Inr st0"
    and "train_loop W st0 = Inr st'"
  using assms by (auto simp: train_def split: sum.splits)

section \<open>The target update\<close>

text \<open>
  Modelled from the spec: \<^verbatim>\<open>loss.update_target\<close> is not among the sources. The spec gives
  the Polyak average \<^verbatim>\<open>target <- tau*critic + (1-tau)*target\<close>, applied parameter-wise. A
  parameter bundle is the map from parameter positions to values, over the reals.
\<close>

definition polyak :: "real \<Rightarrow> ('p \<Rightarrow> real) \<Rightarrow> ('p \<Rightarrow> real) \<Rightarrow> 'p \<Rightarrow> real" where
  "polyak \<tau> critic target_critic = (\<lambda>p. \<tau> * critic p + (1 - \<tau>) * target_critic p)"

text \<open>Whether \<^verbatim>\<open>self.cfg.learnable_temp\<close> is there and true.\<close>

definition learnable_temp_on :: "attrs \<Rightarrow> bool" where
  "learnable_temp_on c =
     (case getattr c ''learnable_temp'' of Inl e \<Rightarrow> False | Inr l \<Rightarrow> truthy l)"

section \<open>Concrete instances\<close>

text \<open>
  The configuration of the end-to-end scenario of the spec: one environment, a buffer of
  100, batches of 10, 20 seed steps, an actor update every second step, everything else
  at its default. It is a configuration object rather than a dictionary, because it also
  carries the two options \<^verbatim>\<open>train\<close> reads that are no fields of \<^verbatim>\<open>SACConfig\<close>: 30 training
  steps and an episode limit.
\<close>

definition scenario_cfg :: "pyval \<Rightarrow> attrs" where
  "scenario_cfg max_len =
     (map_of ([(''num_seed_steps'', PyInt 20), (''replay_buffer_capacity'', PyInt 100),
               (''batch_size'', PyInt 10), (''num_envs'', PyInt 1),
               (''actor_update_freq'', PyInt 2)] @ SACConfig_defaults))
       (''num_train_steps'' \<mapsto> PyInt 30, ''max_episode_length'' \<mapsto> max_len)"

text \<open>
  A small world to run the definitions on: one environment whose episodes end every
  fifth step, samplers that tell seed actions (0) from policy actions (1), and loss
  functions that count their calls in the bundles they return.
\<close>

definition demo_world :: "(nat, nat, nat, nat, nat) world" where
  "demo_world =
     \<lparr>random_split = (\<lambda>k n i. i),
      seed_sampler = (\<lambda>k. [0]),
      actor_sample = (\<lambda>m obs k. [1]),
      gym_reset = (\<lambda>e. (0, [0])),
      gym_step = (\<lambda>e a. (e + 1, [e + 1], [1], [(e + 1) mod 5 = 0])),
      jax_reset = (\<lambda>k. ([0], 0)),
      jax_step = (\<lambda>k e a. ([0], 0, [1], [False])),
      randint = (\<lambda>k bound j. j),
      update_critic = (\<lambda>k actor critic target temp batch discount backup.
                         (critic + 1, \<lparr>critic_loss = 0, q1 = 0, q2 = 0\<rparr>)),
      update_actor = (\<lambda>k actor critic temp batch.
                         (actor + 1, \<lparr>actor_loss = Some 0, entropy = Some 0\<rparr>)),
      update_temp = (\<lambda>temp ent target. (temp + 1, \<lparr>aux_temp = 0, temp_loss = Some 0\<rparr>)),
      update_target = (\<lambda>critic target tau. critic),
      temp_value = (\<lambda>temp. 0)\<rparr>"

definition demo_batch :: "(nat, nat) TimeStep" where
  "demo_batch =
     \<lparr>action = [0], env_obs = [0], next_env_obs = [1], reward = [1], mask_t = [1]\<rparr>"

text \<open>A state of the loop right after the twentieth transition was stored.\<close>

definition demo_state :: "(nat, nat, nat, nat, nat) train_state" where
  "demo_state =
     \<lparr>cfg = scenario_cfg (PyInt 1000), jax_env = False, step = 20,
      replay_buffer = \<lparr>buffer_size = 100, n_envs = 1, capacity_per_env = 100,
                        rows = [demo_batch], ptr = 1\<rparr>,
      ac_actor = 1, ac_critic = 2, ac_target_critic = 3, ac_temp = 4,
      env_sim = 0, loc_rng_key = 0, loc_env_obs = [0], loc_env_states = Some None,
      loc_ep_lens = [1], loc_ep_rets = [1], loc_dones = [False], trace = []\<rparr>"

text \<open>A short run with an evaluation: three steps, one seed step, evaluation every second step.\<close>

definition eval_demo_cfg :: attrs where
  "eval_demo_cfg =
     (scenario_cfg (PyInt 1000))
       (''eval_freq'' \<mapsto> PyInt 2, ''num_seed_steps'' \<mapsto> PyInt 1,
        ''num_train_steps'' \<mapsto> PyInt 3)"

text \<open>A world over real-valued parameter bundles whose target update is the Polyak average.\<close>

definition polyak_world :: "(nat, nat, nat, nat, nat \<Rightarrow> real) world" where
  "polyak_world =
     \<lparr>random_split = (\<lambda>k n i. i),
      seed_sampler = (\<lambda>k. [0]),
      actor_sample = (\<lambda>m obs k. [1]),
      gym_reset = (\<lambda>e. (0, [0])),
      gym_step = (\<lambda>e a. (e + 1, [e + 1], [1], [False])),
      jax_reset = (\<lambda>k. ([0], 0)),
      jax_step = (\<lambda>k e a. ([0], 0, [1], [False])),
      randint = (\<lambda>k bound j. j),
      update_critic = (\<lambda>k actor critic target temp batch discount backup.
                         (\<lambda>p. critic p + 1, \<lparr>critic_loss = 0, q1 = 0, q2 = 0\<rparr>)),
      update_actor = (\<lambda>k actor critic temp batch.
                         (actor, \<lparr>actor_loss = Some 0, entropy = Some 0\<rparr>)),
      update_temp = (\<lambda>temp ent target. (temp, \<lparr>aux_temp = 0, temp_loss = Some 0\<rparr>)),
      update_target = (\<lambda>critic target tau.
                         case tau of PyFloat t \<Rightarrow> polyak t critic target | _ \<Rightarrow> target),
      temp_value = (\<lambda>temp. 0)\<rparr>"

section \<open>Properties of the update cycle\<close>

lemma scenario_attrs:
  "int_attr (scenario_cfg m) ''num_seed_steps'' = Inr 20"
  "int_attr (scenario_cfg m) ''num_train_steps'' = Inr 30"
  "int_attr (scenario_cfg m) ''eval_freq'' = Inr 5000"
  "int_attr (scenario_cfg m) ''log_freq'' = Inr 1000"
  "int_attr (scenario_cfg m) ''actor_update_freq'' = Inr 2"
  "int_attr (scenario_cfg m) ''target_update_freq'' = Inr 1"
  "getattr (scenario_cfg m) ''batch_size'' = Inr (PyInt 10)"
  "getattr (scenario_cfg m) ''num_envs'' = Inr (PyInt 1)"
  "getattr (scenario_cfg m) ''replay_buffer_capacity'' = Inr (PyInt 100)"
  "getattr (scenario_cfg m) ''max_episode_length'' = Inr m"
  "getattr (scenario_cfg m) ''discount'' = Inr (PyFloat (99 / 100))"
  "getattr (scenario_cfg m) ''backup_entropy'' = Inr (PyBool True)"
  "getattr (scenario_cfg m) ''tau'' = Inr (PyFloat (5 / 1000))"
  "getattr (scenario_cfg m) ''learnable_temp'' = Inr (PyBool True)"
  "getattr (scenario_cfg m) ''target_entropy'' = Inr PyNone"
  by (simp_all add: scenario_cfg_def SACConfig_defaults_def int_attr_def getattr_def)

text \<open>What a successful call of \<^verbatim>\<open>update_parameters\<close> returns, branch by branch.\<close>

lemma update_parameters_Inr:
  assumes "update_parameters W c rng_key actor critic target_critic temp batch upd_actor upd_target
             = Inr (a', c', t', tmp', caux, aaux, taux)"
  shows "\<exists>d be. getattr c ''discount'' = Inr d \<and> getattr c ''backup_entropy'' = Inr be
            \<and> (c', caux) = update_critic W (random_split W rng_key 2 1) actor critic
                               target_critic temp batch d be"
    and "upd_target \<Longrightarrow>
           \<exists>tau. getattr c ''tau'' = Inr tau \<and> t' = update_target W critic target_critic tau"
    and "\<not> upd_target \<Longrightarrow> t' = target_critic"
    and "upd_actor \<Longrightarrow>
           (a', aaux) = update_actor W (random_split W (random_split W rng_key 2 0) 2 1)
                          actor critic temp batch"
    and "\<not> upd_actor \<Longrightarrow> a' = actor \<and> tmp' = temp"
    and "upd_actor \<Longrightarrow> learnable_temp_on c \<Longrightarrow>
           \<exists>te. getattr c ''target_entropy'' = Inr te
                \<and> (tmp', taux) = update_temp W temp (entropy aaux) te"
    and "\<not> learnable_temp_on c \<Longrightarrow> tmp' = temp"
  using assms
  by (auto simp: update_parameters_def Let_def learnable_temp_on_def
           split: sum.splits prod.splits if_splits)

text \<open>
  Claim C5. In one update cycle of the training loop the batch is sampled once; the four
  new bundles that replace \<^verbatim>\<open>ac.actor\<close>, \<^verbatim>\<open>ac.critic\<close>, \<^verbatim>\<open>ac.target_critic\<close> and \<^verbatim>\<open>ac.temp\<close>
  are the four results of one call of \<^verbatim>\<open>update_parameters\<close> on the four old bundles and
  that batch; the new critic is what the critic update computes from the old actor (the
  actor passed into the cycle, also when the actor is updated in the same cycle); and
  the new actor, when it is updated, is computed from the same batch.
\<close>

theorem update_cycle_consistent:
  assumes run: "update_phase W st = Inr st'"
      and seed: "int_attr (cfg st) ''num_seed_steps'' = Inr n"
      and warm: "n \<le> step st"
  shows "\<exists>bs batch ua ut d be caux aaux taux.
           getattr (cfg st) ''batch_size'' = Inr bs
         \<and> sample_random_batch (randint W) (replay_buffer st)
               (random_split W (loc_rng_key st) 3 2) bs = Inr batch
         \<and> update_parameters W (cfg st) (random_split W (loc_rng_key st) 3 1)
               (ac_actor st) (ac_critic st) (ac_target_critic st) (ac_temp st) batch ua ut
             = Inr (ac_actor st', ac_critic st', ac_target_critic st', ac_temp st',
                    caux, aaux, taux)
         \<and> getattr (cfg st) ''discount'' = Inr d \<and> getattr (cfg st) ''backup_entropy'' = Inr be
         \<and> (ac_critic st', caux) =
               update_critic W (random_split W (random_split W (loc_rng_key st) 3 1) 2 1)
                 (ac_actor st) (ac_critic st) (ac_target_critic st) (ac_temp st) batch d be
         \<and> (ua \<longrightarrow> (ac_actor st', aaux) =
               update_actor W
                 (random_split W (random_split W (random_split W (loc_rng_key st) 3 1) 2 0) 2 1)
                 (ac_actor st) (ac_critic st) (ac_temp st) batch)"
proof -
  from run seed warm obtain ua ut bs batch a' c' t' tmp' caux aaux taux where
    bs: "getattr (cfg st) ''batch_size'' = Inr bs" and
    batch: "sample_random_batch (randint W) (replay_buffer st)
              (random_split W (loc_rng_key st) 3 2) bs = Inr batch" and
    upd: "update_parameters W (cfg st) (random_split W (loc_rng_key st) 3 1)
            (ac_actor st) (ac_critic st) (ac_target_critic st) (ac_temp st) batch ua ut
          = Inr (a', c', t', tmp', caux, aaux, taux)" and
    new: "ac_actor st' = a'" "ac_critic st' = c'" "ac_target_critic st' = t'" "ac_temp st' = tmp'"
    by (auto simp: update_phase_def Let_def split: sum.splits if_splits prod.splits)
  from update_parameters_Inr(1) [OF upd] obtain d be where
    d: "getattr (cfg st) ''discount'' = Inr d" "getattr (cfg st) ''backup_entropy'' = Inr be"
    and crit: "(c', caux) =
                 update_critic W (random_split W (random_split W (loc_rng_key st) 3 1) 2 1)
                   (ac_actor st) (ac_critic st) (ac_target_critic st) (ac_temp st) batch d be"
    by blast
  have act: "ua \<longrightarrow> (a', aaux) = update_actor W
                 (random_split W (random_split W (random_split W (loc_rng_key st) 3 1) 2 0) 2 1)
                 (ac_actor st) (ac_critic st) (ac_temp st) batch"
    using update_parameters_Inr(4) [OF upd] by simp
  show ?thesis
    using bs batch upd new d crit act by blast
qed

theorem update_cycle_consistent_witness:
  "\<exists>st'. update_phase demo_world demo_state = Inr st'
       \<and> int_attr (cfg demo_state) ''num_seed_steps'' = Inr 20
       \<and> 20 \<le> step demo_state
       \<and> ac_actor st' = 2 \<and> ac_critic st' = 3 \<and> ac_target_critic st' = 2 \<and> ac_temp st' = 5
       \<and> (\<exists>batch ua ut caux aaux taux.
             update_parameters demo_world (cfg demo_state) 1 1 2 3 4 batch ua ut
               = Inr (ac_actor st', ac_critic st', ac_target_critic st', ac_temp st',
                      caux, aaux, taux))"
proof -
  have "case update_phase demo_world demo_state of Inl e \<Rightarrow> False
        | Inr st' \<Rightarrow> ac_actor st' = 2 \<and> ac_critic st' = 3 \<and> ac_target_critic st' = 2
                     \<and> ac_temp st' = 5"
    by code_simp
  then obtain st' where run: "update_phase demo_world demo_state = Inr st'"
    and vals: "ac_actor st' = 2" "ac_critic st' = 3" "ac_target_critic st' = 2" "ac_temp st' = 5"
    by (auto split: sum.splits)
  have seed: "int_attr (cfg demo_state) ''num_seed_steps'' = Inr 20"
    by (simp add: demo_state_def scenario_attrs)
  have warm: "20 \<le> step demo_state" by (simp add: demo_state_def)
  have st: "loc_rng_key demo_state = 0" "ac_actor demo_state = 1" "ac_critic demo_state = 2"
    "ac_target_critic demo_state = 3" "ac_temp demo_state = 4" "random_split demo_world 0 3 1 = 1"
    by (simp_all add: demo_state_def demo_world_def)
  from update_cycle_consistent [OF run seed warm] show ?thesis
    using run seed warm vals unfolding st by blast
qed

text \<open>
  Claim C6. Where the target update of the collaborator is the Polyak average of the
  spec, a call of \<^verbatim>\<open>update_parameters\<close> with \<^verbatim>\<open>update_target\<close> true returns as target critic
  \<^verbatim>\<open>tau*critic + (1-tau)*target\<close> parameter by parameter, taken over the critic and the
  target critic that were passed in; with \<^verbatim>\<open>tau = 1\<close> that is the critic, with \<^verbatim>\<open>tau = 0\<close> the
  unchanged target critic.
\<close>

theorem target_update_polyak:
  assumes spec: "\<And>cr tg. update_target W cr tg (PyFloat \<tau>) = polyak \<tau> cr tg"
      and tau: "getattr c ''tau'' = Inr (PyFloat \<tau>)"
      and run: "update_parameters W c rng_key actor critic target_critic temp batch upd_actor True
                  = Inr (a', c', t', tmp', caux, aaux, taux)"
  shows "t' = polyak \<tau> critic target_critic
       \<and> (\<forall>p. t' p = \<tau> * critic p + (1 - \<tau>) * target_critic p)
       \<and> (\<tau> = 1 \<longrightarrow> t' = critic)
       \<and> (\<tau> = 0 \<longrightarrow> t' = target_critic)"
proof -
  from update_parameters_Inr(2) [OF run] tau spec
  have eq: "t' = polyak \<tau> critic target_critic" by auto
  then show ?thesis by (auto simp: polyak_def)
qed

theorem target_update_polyak_witness:
  "getattr ((scenario_cfg PyNone)(''tau'' \<mapsto> PyFloat 1)) ''tau'' = Inr (PyFloat 1)
   \<and> update_parameters polyak_world ((scenario_cfg PyNone)(''tau'' \<mapsto> PyFloat 1)) 0
        (\<lambda>p. 7) (\<lambda>p. 2) (\<lambda>p. 5) (\<lambda>p. 1) demo_batch False True
      = Inr (\<lambda>p. 7, \<lambda>p. 3, \<lambda>p. 2, \<lambda>p. 1,
             \<lparr>critic_loss = 0, q1 = 0, q2 = 0\<rparr>, \<lparr>actor_loss = None, entropy = None\<rparr>,
             \<lparr>aux_temp = 0, temp_loss = None\<rparr>)
   \<and> polyak 1 (\<lambda>p::nat. 2) (\<lambda>p. 5) = (\<lambda>p. 2)"
proof -
  let ?c = "(scenario_cfg PyNone)(''tau'' \<mapsto> PyFloat 1)"
  have spec: "\<And>cr tg. update_target polyak_world cr tg (PyFloat 1) = polyak 1 cr tg"
    by (simp add: polyak_world_def)
  have tau: "getattr ?c ''tau'' = Inr (PyFloat 1)"
    by (simp add: getattr_def)
  have attrs: "getattr ?c ''discount'' = Inr (PyFloat (99 / 100))"
    "getattr ?c ''backup_entropy'' = Inr (PyBool True)"
    using scenario_attrs(11,12) [of PyNone] by (simp_all add: getattr_def)
  have run: "update_parameters polyak_world ?c 0 (\<lambda>p. 7) (\<lambda>p. 2) (\<lambda>p. 5) (\<lambda>p. 1)
               demo_batch False True
             = Inr (\<lambda>p. 7, \<lambda>p. 3, \<lambda>p. 2, \<lambda>p. 1,
                    \<lparr>critic_loss = 0, q1 = 0, q2 = 0\<rparr>, \<lparr>actor_loss = None, entropy = None\<rparr>,
                    \<lparr>aux_temp = 0, temp_loss = None\<rparr>)"
    by (simp add: update_parameters_def attrs tau polyak_world_def polyak_def)
  from target_update_polyak [OF spec tau run] show ?thesis
    using tau run by simp
qed

text \<open>
  Claim C7. A call of \<^verbatim>\<open>update_parameters\<close> that returns always returns the critic the
  critic update computed; the actor is the one passed in unless \<^verbatim>\<open>update_actor\<close> is true,
  the target critic is the one passed in unless \<^verbatim>\<open>update_target\<close> is true, and the
  temperature is the one passed in unless \<^verbatim>\<open>update_actor\<close> and \<^verbatim>\<open>learnable_temp\<close> are both
  true.
\<close>

theorem update_parameters_frame:
  assumes "update_parameters W c rng_key actor critic target_critic temp batch upd_actor upd_target
             = Inr (a', c', t', tmp', caux, aaux, taux)"
  shows "(\<exists>d be. getattr c ''discount'' = Inr d \<and> getattr c ''backup_entropy'' = Inr be
            \<and> (c', caux) = update_critic W (random_split W rng_key 2 1) actor critic
                               target_critic temp batch d be)
       \<and> (\<not> upd_actor \<longrightarrow> a' = actor)
       \<and> (\<not> upd_target \<longrightarrow> t' = target_critic)
       \<and> (\<not> (upd_actor \<and> learnable_temp_on c) \<longrightarrow> tmp' = temp)"
  using update_parameters_Inr [OF assms] by blast

theorem update_parameters_frame_witness:
  "update_parameters demo_world (scenario_cfg PyNone) 0 1 2 3 4 demo_batch False False
     = Inr (1, 3, 3, 4, \<lparr>critic_loss = 0, q1 = 0, q2 = 0\<rparr>,
            \<lparr>actor_loss = None, entropy = None\<rparr>, \<lparr>aux_temp = 0, temp_loss = None\<rparr>)
   \<and> update_critic demo_world 1 1 2 3 4 demo_batch (PyFloat (99 / 100)) (PyBool True)
     = (3, \<lparr>critic_loss = 0, q1 = 0, q2 = 0\<rparr>)"
proof -
  have run: "update_parameters demo_world (scenario_cfg PyNone) 0 1 2 3 4 demo_batch False False
     = Inr (1, 3, 3, 4, \<lparr>critic_loss = 0, q1 = 0, q2 = 0\<rparr>,
            \<lparr>actor_loss = None, entropy = None\<rparr>, \<lparr>aux_temp = 0, temp_loss = None\<rparr>)"
    by (simp add: update_parameters_def scenario_attrs demo_world_def)
  from update_parameters_frame [OF run] show ?thesis
    using run by (simp add: scenario_attrs demo_world_def)
qed

section \<open>Properties of the schedule\<close>

text \<open>
  Claim C9. In a run of \<^verbatim>\<open>train\<close> that returns, an evaluation rollout happened at step \<open>s\<close>
  only if \<^verbatim>\<open>eval_freq\<close> is positive and divides \<open>s\<close>, \<open>s\<close> is positive, and \<open>s\<close> is at least
  \<^verbatim>\<open>num_seed_steps\<close>. So there is none at step 0, none during the seed phase and none for
  an \<^verbatim>\<open>eval_freq\<close> that is zero or negative (with zero the remainder at line 112 raises
  \<^verbatim>\<open>ZeroDivisionError\<close>, see \<open>eval_due\<close>, and the run does not return).
\<close>

theorem evaluation_only_when_due:
  assumes run: "train W sac actor critic target_critic temp sim rng_key = Inr st'"
      and ev: "Evaluate s \<in> set (trace st')"
  shows "\<exists>f n. int_attr (cfg sac) ''eval_freq'' = Inr f
             \<and> int_attr (cfg sac) ''num_seed_steps'' = Inr n
             \<and> s mod f = 0 \<and> 0 < s \<and> n \<le> s \<and> 0 < f"
proof -
  from run obtain st0 where
    b: "train_begin W sac actor critic target_critic temp sim rng_key = Inr st0" and
    l: "train_loop W st0 = Inr st'"
    by (rule train_Inr)
  let ?I = "\<lambda>x. cfg x = cfg sac
               \<and> (\<forall>k. Evaluate k \<in> set (trace x) \<longrightarrow> eval_due (cfg sac) k = Inr True)"
  have init: "?I st0"
    using train_begin_Inr [OF b] by simp
  have pres: "?I x'" if inv: "?I x" and it: "train_iter W x = Inr x'" for x x'
  proof -
    from train_iter_trace [OF it] obtain n msk where
      tr: "trace x' = trace x @ pre_events (cfg x) (step x) (loc_dones x)
             @ [EnvStep (step x) (step x < n), Store (step x + 1) msk]
             @ post_events (cfg x) n (step x + 1)"
      by blast
    have "eval_due (cfg sac) k = Inr True" if "Evaluate k \<in> set (trace x')" for k
      using that inv unfolding tr
      by (auto simp: pre_events_def post_events_def split: if_splits)
    with train_iter_frame [OF it] inv show ?thesis by simp
  qed
  from train_loop_invariant [where I = ?I, OF l init pres] ev
  have "eval_due (cfg sac) s = Inr True" by simp
  then show ?thesis by (simp add: eval_due_True)
qed

theorem evaluation_only_when_due_witness:
  "\<exists>sac st'. SAC_init False 1 (CfgObj eval_demo_cfg) = Inr sac
      \<and> train demo_world sac 0 0 0 0 0 0 = Inr st'
      \<and> Evaluate 2 \<in> set (trace st')
      \<and> int_attr (cfg sac) ''eval_freq'' = Inr 2
      \<and> int_attr (cfg sac) ''num_seed_steps'' = Inr 1
      \<and> (2::int) mod 2 = 0"
proof -
  have "case SAC_init False 1 (CfgObj eval_demo_cfg) :: error + (nat, nat) SAC of
          Inl e \<Rightarrow> False
        | Inr sac \<Rightarrow>
           (case train demo_world sac 0 0 0 0 0 0 of Inl e \<Rightarrow> False
            | Inr st' \<Rightarrow> Evaluate 2 \<in> set (trace st'))"
    by code_simp
  then obtain sac :: "(nat, nat) SAC" and st' where
    i: "SAC_init False 1 (CfgObj eval_demo_cfg) = Inr sac" and
    r: "train demo_world sac 0 0 0 0 0 0 = Inr st'" and
    e: "Evaluate 2 \<in> set (trace st')"
    by (auto split: sum.splits)
  from evaluation_only_when_due [OF r e] obtain f n where
    "int_attr (cfg sac) ''eval_freq'' = Inr f" "int_attr (cfg sac) ''num_seed_steps'' = Inr n"
    "2 mod f = 0" "n \<le> 2" "0 < f"
    by auto
  moreover have "int_attr (cfg sac) ''eval_freq'' = Inr 2"
    "int_attr (cfg sac) ''num_seed_steps'' = Inr 1"
    using i by (auto simp: SAC_init_def eval_demo_cfg_def scenario_cfg_def SACConfig_defaults_def
        getattr_def int_attr_def GenericBuffer_init_def split: sum.splits if_splits)
  ultimately show ?thesis using i r e by auto
qed





end
